theory Spec2Isabelle
  imports Main
begin

section \<open>Data model of webserver.go\<close>

text \<open>
  The webhook payload, as the two structs of the source declare it. A Go
  \<^verbatim>\<open>map[string]string\<close> is a partial map; reading a key that is absent (or reading a nil
  map) yields the zero value, the empty string, which \<open>index_str\<close> writes out.
\<close>

record PrometheusAlertDetail =
  Labels :: "string \<rightharpoonup> string"
  Annotations :: "string \<rightharpoonup> string"
  StartAt :: string
  EndsAt :: string

record PrometheusAlert =
  Version :: string
  GroupKey :: string
  Status :: string
  Receiver :: string
  GroupLabels :: "string \<rightharpoonup> string"
  CommonLabels :: "string \<rightharpoonup> string"
  CommonAnnotations :: "string \<rightharpoonup> string"
  ExternalURL :: string
  Alerts :: "PrometheusAlertDetail list"

definition index_str :: "(string \<rightharpoonup> string) \<Rightarrow> string \<Rightarrow> string" where
  "index_str m k = (case m k of None \<Rightarrow> [] | Some v \<Rightarrow> v)"

definition index_int :: "(int \<rightharpoonup> int) \<Rightarrow> int \<Rightarrow> int" where
  "index_int m k = (case m k of None \<Rightarrow> 0 | Some v \<Rightarrow> v)"

text \<open>
  A Go \<^verbatim>\<open>error\<close> is nil or a value with a message: \<open>None\<close> is nil and \<open>Some m\<close> is an
  error whose \<^verbatim>\<open>Error()\<close> is \<open>m\<close>. A Go function returning \<^verbatim>\<open>(v, err)\<close> returns a pair.
\<close>

type_synonym go_error = "string option"

text \<open>
  The incident as SubmitAlert reads it: the fields \<^verbatim>\<open>Id\<close>, \<^verbatim>\<open>Status\<close>, \<^verbatim>\<open>CreatedAt\<close>
  and \<^verbatim>\<open>UpdatedAt\<close>. The first two carry a suffix, since \<open>Id\<close> is the identity relation
  of HOL and \<open>Status\<close> is the field of the payload. Identifiers and status codes are Go
  \<^verbatim>\<open>int\<close>s on which the function does no arithmetic, so they are \<open>int\<close> here.
\<close>

record Incident =
  Id_i :: int
  Status_i :: int
  CreatedAt :: string
  UpdatedAt :: string

text \<open>
  The status-page client \<^verbatim>\<open>config.Cachet\<close> is declared outside webserver.go. It is a
  parameter of the model: five operations over a backend state \<open>'s\<close> of any type, each
  returning what the Go method returns together with the backend state after the call.
  The argument order is the one of the call sites.
\<close>

record 's CachetClient =
  ListComponents :: "'s \<Rightarrow> ((string \<rightharpoonup> int) \<times> go_error) \<times> 's"
  SearchIncidents :: "int \<Rightarrow> 's \<Rightarrow> (Incident list \<times> go_error) \<times> 's"
  CreateIncident :: "string \<Rightarrow> int \<Rightarrow> int \<Rightarrow> int \<Rightarrow> 's \<Rightarrow> go_error \<times> 's"
  UpdateIncident :: "string \<Rightarrow> int \<Rightarrow> int \<Rightarrow> int \<Rightarrow> string \<Rightarrow> 's \<Rightarrow> go_error \<times> 's"
  ReadIncident :: "int \<Rightarrow> 's \<Rightarrow> (Incident \<times> go_error) \<times> 's"

text \<open>
  The configuration, with the fields SubmitAlert reads. \<open>LogLevel\<close> only guards calls of
  \<^verbatim>\<open>log.Println\<close>; the log output is not part of the model.
\<close>

record 's PrometheusCachetConfig =
  PrometheusToken :: string
  LabelName :: string
  SquashIncident :: bool
  LogLevel :: int
  Cachet :: "'s CachetClient"

text \<open>
  Go's \<^verbatim>\<open>time\<close> package is a parameter as well: \<open>Parse layout value\<close> is
  \<^verbatim>\<open>time.Parse(layout, value)\<close>, and \<open>SubMinutes u c\<close> is the integer
  \<^verbatim>\<open>int(u.Sub(c).Minutes())\<close>.
\<close>

record 't TimeLib =
  Parse :: "string \<Rightarrow> string \<Rightarrow> 't \<times> go_error"
  SubMinutes :: "'t \<Rightarrow> 't \<Rightarrow> int"

text \<open>
  What an invocation does to the outside: the response written with \<^verbatim>\<open>c.JSON\<close> (status
  code and the one key and value of the \<^verbatim>\<open>gin.H\<close>), and the calls made on the client, in
  order, each with the error it returned.
\<close>

datatype response = JSON nat string string

definition StatusOK :: nat where
  "StatusOK = 200"

definition StatusBadRequest :: nat where
  "StatusBadRequest = 400"

datatype call =
    ListComponentsCall
  | SearchIncidentsCall int
  | CreateIncidentCall string int int int
  | UpdateIncidentCall string int int int string
  | ReadIncidentCall int

type_synonym event = "call \<times> go_error"

section \<open>Formatting\<close>

text \<open>The verb \<^verbatim>\<open>%d\<close> of \<^verbatim>\<open>fmt.Sprintf\<close> on an \<^verbatim>\<open>int\<close>: decimal digits, a minus sign first
  when negative.\<close>

fun fmt_nat :: "nat \<Rightarrow> string" where
  "fmt_nat n =
     (if n < 10 then [''0123456789'' ! n]
      else fmt_nat (n div 10) @ [''0123456789'' ! (n mod 10)])"

declare fmt_nat.simps [simp del]

definition fmt_d :: "int \<Rightarrow> string" where
  "fmt_d i = (if i < 0 then CHR ''-'' # fmt_nat (nat (- i)) else fmt_nat (nat i))"

section \<open>SubmitAlert\<close>

text \<open>
  Lines 95 to 153: what the loop does for a component seen for the first time in this
  invocation. The result is the response of an early \<^verbatim>\<open>return\<close> (\<open>None\<close> when the body
  falls through to the next alert), the backend state, and the client calls made.
\<close>

definition SubmitAlert_body ::
  "'s PrometheusCachetConfig \<Rightarrow> 't TimeLib \<Rightarrow> int \<Rightarrow> int \<Rightarrow> PrometheusAlertDetail \<Rightarrow> int \<Rightarrow> 's
     \<Rightarrow> response option \<times> 's \<times> event list" where
  "SubmitAlert_body config tm status componentStatus alert componentID s =
    (if SquashIncident config then
       (if status \<noteq> 1 then
          (case SearchIncidents (Cachet config) componentID s of ((incidents, err), s1) \<Rightarrow>
            (case err of
               Some m \<Rightarrow> (Some (JSON StatusBadRequest ''error'' m), s1,
                           [(SearchIncidentsCall componentID, err)])
             | None \<Rightarrow>
                (if length incidents = 0 \<or> Status_i (incidents ! 0) = 4 then
                   (case CreateIncident (Cachet config) (index_str (Labels alert) (LabelName config))
                           componentID status componentStatus s1 of (err', s2) \<Rightarrow>
                     (case err' of
                        Some m \<Rightarrow> (Some (JSON StatusBadRequest ''error'' m), s2,
                           [(SearchIncidentsCall componentID, err),
                            (CreateIncidentCall (index_str (Labels alert) (LabelName config))
                               componentID status componentStatus, err')])
                      | None \<Rightarrow> (None, s2,
                           [(SearchIncidentsCall componentID, err),
                            (CreateIncidentCall (index_str (Labels alert) (LabelName config))
                               componentID status componentStatus, err')])))
                 else (None, s1, [(SearchIncidentsCall componentID, err)]))))
        else
          (case SearchIncidents (Cachet config) componentID s of ((incidents, err), s1) \<Rightarrow>
            (case err of
               None \<Rightarrow>
                (if length incidents > 0 then
                   (case err of
                      None \<Rightarrow>
                       (case UpdateIncident (Cachet config)
                               (index_str (Labels alert) (LabelName config)) componentID
                               (Id_i (incidents ! 0)) status
                               (''Prometheus flagged service ''
                                 @ index_str (Labels alert) (LabelName config) @ '' as up'') s1
                        of (uerr, s2) \<Rightarrow>
                         (let incidentID = Id_i (incidents ! 0);
                              componentName = index_str (Labels alert) (LabelName config);
                              ev1 = [(SearchIncidentsCall componentID, err),
                                     (UpdateIncidentCall componentName componentID incidentID status
                                        (''Prometheus flagged service '' @ componentName @ '' as up''),
                                      uerr)]
                          in (case ReadIncident (Cachet config) incidentID s2 of
                                ((incident, rerr), s3) \<Rightarrow>
                                 (case rerr of
                                    None \<Rightarrow>
                                     (let layout = ''2006-01-02 15:04:05'';
                                          (createdAt, err1) = Parse tm layout (CreatedAt incident);
                                          (updatedAt, err2) = Parse tm layout (UpdatedAt incident)
                                      in if err1 = None \<and> err2 = None then
                                           (case UpdateIncident (Cachet config) componentName
                                                   componentID incidentID status
                                                   (''Prometheus flagged service '' @ componentName
                                                     @ '' as up (service was down for ''
                                                     @ fmt_d (SubMinutes tm updatedAt createdAt)
                                                     @ '' minutes)'') s3
                                            of (uerr', s4) \<Rightarrow>
                                              (None, s4,
                                               ev1 @ [(ReadIncidentCall incidentID, rerr),
                                                 (UpdateIncidentCall componentName componentID
                                                    incidentID status
                                                    (''Prometheus flagged service '' @ componentName
                                                      @ '' as up (service was down for ''
                                                      @ fmt_d (SubMinutes tm updatedAt createdAt)
                                                      @ '' minutes)''), uerr')]))
                                         else (None, s3, ev1 @ [(ReadIncidentCall incidentID, rerr)]))
                                  | Some m \<Rightarrow>
                                     (None, s3, ev1 @ [(ReadIncidentCall incidentID, rerr)])))))
                    | Some m \<Rightarrow> (Some (JSON StatusBadRequest ''error'' m), s1,
                                  [(SearchIncidentsCall componentID, err)]))
                 else (Some (JSON StatusBadRequest ''error''
                               (''No incident found for component '' @ fmt_d componentID
                                 @ [CHR 0x0A])),
                       s1, [(SearchIncidentsCall componentID, err)]))
             | Some m \<Rightarrow> (Some (JSON StatusBadRequest ''error'' m), s1,
                           [(SearchIncidentsCall componentID, err)]))))
     else
       (case CreateIncident (Cachet config) (index_str (Labels alert) (LabelName config))
               componentID status componentStatus s of (err, s1) \<Rightarrow>
         (case err of
            Some m \<Rightarrow> (Some (JSON StatusBadRequest ''error'' m), s1,
               [(CreateIncidentCall (index_str (Labels alert) (LabelName config))
                   componentID status componentStatus, err)])
          | None \<Rightarrow> (None, s1,
               [(CreateIncidentCall (index_str (Labels alert) (LabelName config))
                   componentID status componentStatus, err)]))))"

text \<open>
  Lines 89 to 156: the loop over \<^verbatim>\<open>alerts.Alerts\<close>, with the component directory \<open>list\<close>
  and the map \<open>alreadyFired\<close> of the components handled so far in this invocation.
\<close>

fun SubmitAlert_loop ::
  "'s PrometheusCachetConfig \<Rightarrow> 't TimeLib \<Rightarrow> int \<Rightarrow> int \<Rightarrow> (string \<rightharpoonup> int) \<Rightarrow> (int \<rightharpoonup> int)
     \<Rightarrow> PrometheusAlertDetail list \<Rightarrow> 's \<Rightarrow> response option \<times> 's \<times> event list" where
  "SubmitAlert_loop config tm status componentStatus list alreadyFired [] s = (None, s, [])"
| "SubmitAlert_loop config tm status componentStatus list alreadyFired (alert # rest) s =
    (case list (index_str (Labels alert) (LabelName config)) of
       Some componentID \<Rightarrow>
        (if index_int alreadyFired componentID = 0 then
           (case SubmitAlert_body config tm status componentStatus alert componentID s of
              (Some r, s1, evs) \<Rightarrow> (Some r, s1, evs)
            | (None, s1, evs) \<Rightarrow>
               (case SubmitAlert_loop config tm status componentStatus list
                       (alreadyFired(componentID \<mapsto> 1)) rest s1 of
                  (r, s2, evs') \<Rightarrow> (r, s2, evs @ evs')))
         else SubmitAlert_loop config tm status componentStatus list alreadyFired rest s)
     | None \<Rightarrow> SubmitAlert_loop config tm status componentStatus list alreadyFired rest s)"

text \<open>
  The whole function. \<open>bearer\<close> is the Authorization header of the request and \<open>payload\<close>
  is what \<^verbatim>\<open>c.ShouldBindJSON\<close> gives: the decoded alert group, or the error of the
  decoder.
\<close>

definition derive_status :: "PrometheusAlert \<Rightarrow> int \<times> int" where
  "derive_status alerts = (if Status alerts = ''firing'' then (4, 4) else (1, 1))"

definition SubmitAlert ::
  "'s PrometheusCachetConfig \<Rightarrow> 't TimeLib \<Rightarrow> string \<Rightarrow> PrometheusAlert \<times> go_error \<Rightarrow> 's
     \<Rightarrow> response \<times> 's \<times> event list" where
  "SubmitAlert config tm bearer payload s =
    (if PrometheusToken config \<noteq> [] \<and> bearer \<noteq> ''Bearer '' @ PrometheusToken config then
       (JSON StatusBadRequest ''error'' ''wrong Authorization header'', s, [])
     else
       (case payload of
          (alerts, None) \<Rightarrow>
           (case derive_status alerts of (status, componentStatus) \<Rightarrow>
             (case ListComponents (Cachet config) s of
                ((list, Some m), s1) \<Rightarrow>
                  (JSON StatusBadRequest ''error'' m, s1, [(ListComponentsCall, Some m)])
              | ((list, None), s1) \<Rightarrow>
                 (case SubmitAlert_loop config tm status componentStatus list Map.empty
                         (Alerts alerts) s1 of
                    (Some r, s2, evs) \<Rightarrow> (r, s2, (ListComponentsCall, None) # evs)
                  | (None, s2, evs) \<Rightarrow>
                      (JSON StatusOK ''status'' ''OK'', s2, (ListComponentsCall, None) # evs))))
        | (alerts, Some m) \<Rightarrow> (JSON StatusBadRequest ''error'' m, s, [])))"

section \<open>Observations on the calls of an invocation\<close>

text \<open>The component a client call is about, and the incident name it carries.\<close>

fun is_search :: "int \<Rightarrow> call \<Rightarrow> bool" where
  "is_search c (SearchIncidentsCall componentID) = (componentID = c)"
| "is_search c _ = False"

fun is_create :: "int \<Rightarrow> call \<Rightarrow> bool" where
  "is_create c (CreateIncidentCall name componentID status componentStatus) = (componentID = c)"
| "is_create c _ = False"

fun is_update :: "int \<Rightarrow> call \<Rightarrow> bool" where
  "is_update c (UpdateIncidentCall name componentID incidentID status message) = (componentID = c)"
| "is_update c _ = False"

definition count_calls :: "(call \<Rightarrow> bool) \<Rightarrow> event list \<Rightarrow> nat" where
  "count_calls P evs = length (filter (\<lambda>ev. P (fst ev)) evs)"

fun call_name :: "call \<Rightarrow> string option" where
  "call_name (CreateIncidentCall name componentID status componentStatus) = Some name"
| "call_name (UpdateIncidentCall name componentID incidentID status message) = Some name"
| "call_name _ = None"

text \<open>
  A failed call of one of the three operations whose error SubmitAlert tests: listing the
  components, searching the incidents of a component, creating an incident.
\<close>

fun checked_failure :: "event \<Rightarrow> bool" where
  "checked_failure (ListComponentsCall, Some m) = True"
| "checked_failure (SearchIncidentsCall componentID, Some m) = True"
| "checked_failure (CreateIncidentCall name componentID status componentStatus, Some m) = True"
| "checked_failure _ = False"

text \<open>
  \<open>fail_fast r evs\<close>: no call before the last one is a checked failure, and when the last
  one is, the response is a 400 carrying its message.
\<close>

fun fail_fast :: "response option \<Rightarrow> event list \<Rightarrow> bool" where
  "fail_fast r [] = True"
| "fail_fast r [ev] =
     (if checked_failure ev then r = Some (JSON StatusBadRequest ''error'' (the (snd ev))) else True)"
| "fail_fast r (ev # evs) = (if checked_failure ev then False else fail_fast r evs)"


section \<open>Test doubles\<close>

text \<open>
  A client and a time library to run SubmitAlert on concrete requests. The client answers
  with a fixed directory, fixed search results and a fixed stored incident, never fails,
  and counts the calls it served in its state; a failing operation is put in by a record
  update where an example needs one. The time library knows two timestamps.
\<close>

definition stubCachet ::
  "(string \<rightharpoonup> int) \<Rightarrow> (int \<Rightarrow> Incident list) \<Rightarrow> (int \<Rightarrow> Incident) \<Rightarrow> nat CachetClient" where
  "stubCachet dir found stored =
     \<lparr> ListComponents = (\<lambda>s. ((dir, None), Suc s)),
       SearchIncidents = (\<lambda>componentID s. ((found componentID, None), Suc s)),
       CreateIncident = (\<lambda>name componentID status componentStatus s. (None, Suc s)),
       UpdateIncident = (\<lambda>name componentID incidentID status message s. (None, Suc s)),
       ReadIncident = (\<lambda>incidentID s. ((stored incidentID, None), Suc s)) \<rparr>"

definition stubTime :: "int TimeLib" where
  "stubTime =
     \<lparr> Parse = (\<lambda>layout v.
         if layout = ''2006-01-02 15:04:05'' \<and> v = ''2024-05-01 10:00:00'' then (36000, None)
         else if layout = ''2006-01-02 15:04:05'' \<and> v = ''2024-05-01 10:42:30'' then (38550, None)
         else (0, Some ''cannot parse'')),
       SubMinutes = (\<lambda>u c. (u - c) div 60) \<rparr>"

definition stubConfig :: "bool \<Rightarrow> nat CachetClient \<Rightarrow> nat PrometheusCachetConfig" where
  "stubConfig squash client =
     \<lparr> PrometheusToken = [], LabelName = ''service'', SquashIncident = squash, LogLevel = 0,
       Cachet = client \<rparr>"

definition labelled :: "(string \<rightharpoonup> string) \<Rightarrow> PrometheusAlertDetail" where
  "labelled ls = \<lparr> Labels = ls, Annotations = Map.empty, StartAt = [], EndsAt = [] \<rparr>"

definition apiAlert :: PrometheusAlertDetail where
  "apiAlert = labelled [''service'' \<mapsto> ''api'']"

definition alertGroup :: "string \<Rightarrow> PrometheusAlertDetail list \<Rightarrow> PrometheusAlert" where
  "alertGroup st as =
     \<lparr> Version = ''4'', GroupKey = [], Status = st, Receiver = [], GroupLabels = Map.empty,
       CommonLabels = Map.empty, CommonAnnotations = Map.empty, ExternalURL = [], Alerts = as \<rparr>"

definition stubIncident :: "int \<Rightarrow> int \<Rightarrow> string \<Rightarrow> string \<Rightarrow> Incident" where
  "stubIncident i st c u = \<lparr> Id_i = i, Status_i = st, CreatedAt = c, UpdatedAt = u \<rparr>"

definition openIncident :: Incident where
  "openIncident = stubIncident 7 4 ''2024-05-01 10:00:00'' ''2024-05-01 10:42:30''"

definition closedIncident :: Incident where
  "closedIncident = stubIncident 7 1 ''2024-05-01 10:00:00'' ''2024-05-01 10:42:30''"

definition dbAlert :: PrometheusAlertDetail where
  "dbAlert = labelled [''service'' \<mapsto> ''db'']"

definition cacheAlert :: PrometheusAlertDetail where
  "cacheAlert = labelled [''service'' \<mapsto> ''cache'']"

definition unlabelledAlert :: PrometheusAlertDetail where
  "unlabelledAlert = labelled [''job'' \<mapsto> ''node'']"

definition twoComponents :: "string \<rightharpoonup> int" where
  "twoComponents = [''api'' \<mapsto> 42, ''db'' \<mapsto> 43]"

text \<open>Clients with one operation that always fails.\<close>

definition failingCreate :: "nat CachetClient \<Rightarrow> nat CachetClient" where
  "failingCreate client =
     client\<lparr> CreateIncident :=
       (\<lambda>name componentID status componentStatus s. (Some ''create failed'', Suc s)) \<rparr>"

definition failingUpdate :: "nat CachetClient \<Rightarrow> nat CachetClient" where
  "failingUpdate client =
     client\<lparr> UpdateIncident :=
       (\<lambda>name componentID incidentID status message s. (Some ''update failed'', Suc s)) \<rparr>"

definition failingRead :: "nat CachetClient \<Rightarrow> nat CachetClient" where
  "failingRead client =
     client\<lparr> ReadIncident :=
       (\<lambda>incidentID s. ((stubIncident 0 0 [] [], Some ''read failed''), Suc s)) \<rparr>"

lemmas stub_defs =
  stubCachet_def stubTime_def stubConfig_def labelled_def apiAlert_def alertGroup_def
  stubIncident_def openIncident_def closedIncident_def dbAlert_def cacheAlert_def unlabelledAlert_def twoComponents_def
  failingCreate_def failingUpdate_def failingRead_def

lemmas run_defs =
  SubmitAlert_def derive_status_def SubmitAlert_body_def index_str_def index_int_def
  StatusOK_def StatusBadRequest_def fmt_d_def fmt_nat.simps Let_def

section \<open>The calls of the loop body and of the loop\<close>

lemma body_fail_fast:
  "SubmitAlert_body config tm status componentStatus alert componentID s = (r, s', evs) \<Longrightarrow>
     fail_fast r evs"
  by (auto simp: SubmitAlert_body_def Let_def split: prod.splits option.splits if_splits)

lemma body_no_failure:
  "SubmitAlert_body config tm status componentStatus alert componentID s = (None, s', evs) \<Longrightarrow>
     ev \<in> set evs \<Longrightarrow> \<not> checked_failure ev"
  by (auto simp: SubmitAlert_body_def Let_def split: prod.splits option.splits if_splits)

lemma body_counts:
  "SubmitAlert_body config tm status componentStatus alert componentID s = (r, s', evs) \<Longrightarrow>
    count_calls (is_search c) evs \<le> (if c = componentID then 1 else 0) \<and>
    count_calls (is_create c) evs \<le> (if c = componentID then 1 else 0) \<and>
    count_calls (is_update c) evs \<le> (if c = componentID then 2 else 0)"
  by (auto simp: SubmitAlert_body_def Let_def count_calls_def
      split: prod.splits option.splits if_splits)

lemma body_creates:
  "SubmitAlert_body config tm status componentStatus alert componentID s = (r, s', evs) \<Longrightarrow>
     ev \<in> set evs \<Longrightarrow> fst ev = CreateIncidentCall name c st cst \<Longrightarrow>
     st = status \<and> cst = componentStatus"
  by (auto simp: SubmitAlert_body_def Let_def split: prod.splits option.splits if_splits)

lemma fail_fast_Cons_ok: "\<not> checked_failure ev \<Longrightarrow> fail_fast r (ev # evs) = fail_fast r evs"
  by (cases evs) auto

lemma fail_fast_Cons_more: "evs \<noteq> [] \<Longrightarrow> fail_fast r (ev # evs) = (\<not> checked_failure ev \<and> fail_fast r evs)"
  by (cases evs) auto

lemma fail_fast_append:
  "(\<And>ev. ev \<in> set evs \<Longrightarrow> \<not> checked_failure ev) \<Longrightarrow> fail_fast r (evs @ evs') = fail_fast r evs'"
  by (induction evs) (simp_all add: fail_fast_Cons_ok)

lemma fail_fast_split:
  "fail_fast r (pre @ ev # post) \<Longrightarrow> checked_failure ev \<Longrightarrow>
     post = [] \<and> r = Some (JSON StatusBadRequest ''error'' (the (snd ev)))"
proof (induction pre)
  case Nil
  then show ?case by (cases post) (auto split: if_splits)
next
  case (Cons a pre)
  then show ?case by (simp add: fail_fast_Cons_more)
qed

lemma count_calls_append [simp]: "count_calls P (xs @ ys) = count_calls P xs + count_calls P ys"
  by (simp add: count_calls_def)

lemma count_calls_Nil [simp]: "count_calls P [] = 0"
  by (simp add: count_calls_def)

lemma index_int_upd [simp]: "index_int (m(k \<mapsto> v)) k' = (if k' = k then v else index_int m k')"
  by (simp add: index_int_def)

lemma loop_fail_fast:
  "SubmitAlert_loop config tm st cst list fired alerts s = (r, s', evs) \<Longrightarrow> fail_fast r evs"
proof (induction alerts arbitrary: fired s r s' evs)
  case Nil
  then show ?case by simp
next
  case (Cons a alerts)
  show ?case
  proof (cases "list (index_str (Labels a) (LabelName config))")
    case None
    with Cons show ?thesis by simp
  next
    case (Some c)
    show ?thesis
    proof (cases "index_int fired c = 0")
      case False
      with Some Cons show ?thesis by simp
    next
      case True
      obtain r1 s1 e1 where b: "SubmitAlert_body config tm st cst a c s = (r1, s1, e1)"
        by (cases "SubmitAlert_body config tm st cst a c s") auto
      show ?thesis
      proof (cases r1)
        case (Some x)
        with b Cons.prems \<open>list _ = Some c\<close> True have "r = r1" "evs = e1" by auto
        with body_fail_fast [OF b] show ?thesis by simp
      next
        case None
        obtain r2 s2 e2 where l: "SubmitAlert_loop config tm st cst list (fired(c \<mapsto> 1)) alerts s1 = (r2, s2, e2)"
          by (cases "SubmitAlert_loop config tm st cst list (fired(c \<mapsto> 1)) alerts s1") auto
        with b None Cons.prems \<open>list _ = Some c\<close> True have eq: "r = r2" "evs = e1 @ e2" by auto
        have "fail_fast r2 e2" by (rule Cons.IH [OF l])
        moreover have "\<And>ev. ev \<in> set e1 \<Longrightarrow> \<not> checked_failure ev"
          using b None by (simp add: body_no_failure)
        ultimately show ?thesis using eq by (simp add: fail_fast_append)
      qed
    qed
  qed
qed

lemma loop_counts:
  "SubmitAlert_loop config tm st cst list fired alerts s = (r, s', evs) \<Longrightarrow>
    count_calls (is_search c) evs \<le> (if index_int fired c = 0 then 1 else 0) \<and>
    count_calls (is_create c) evs \<le> (if index_int fired c = 0 then 1 else 0) \<and>
    count_calls (is_update c) evs \<le> (if index_int fired c = 0 then 2 else 0)"
proof (induction alerts arbitrary: fired s r s' evs)
  case Nil
  then show ?case by simp
next
  case (Cons a alerts)
  show ?case
  proof (cases "list (index_str (Labels a) (LabelName config))")
    case None
    with Cons show ?thesis by simp
  next
    case (Some d)
    show ?thesis
    proof (cases "index_int fired d = 0")
      case False
      with Some Cons show ?thesis by simp
    next
      case True
      obtain r1 s1 e1 where b: "SubmitAlert_body config tm st cst a d s = (r1, s1, e1)"
        by (cases "SubmitAlert_body config tm st cst a d s") auto
      note bc = body_counts [OF b, of c]
      show ?thesis
      proof (cases r1)
        case (Some x)
        with b Cons.prems \<open>list _ = Some d\<close> True have "evs = e1" by auto
        with bc True show ?thesis by (auto split: if_splits)
      next
        case None
        obtain r2 s2 e2 where l: "SubmitAlert_loop config tm st cst list (fired(d \<mapsto> 1)) alerts s1 = (r2, s2, e2)"
          by (cases "SubmitAlert_loop config tm st cst list (fired(d \<mapsto> 1)) alerts s1") auto
        with b None Cons.prems \<open>list _ = Some d\<close> True have eq: "evs = e1 @ e2" by auto
        show ?thesis
        proof (cases "c = d")
          case True
          with Cons.IH [OF l] have "count_calls (is_search c) e2 = 0"
            "count_calls (is_create c) e2 = 0" "count_calls (is_update c) e2 = 0"
            by (simp_all add: index_int_def)
          with bc True \<open>index_int fired d = 0\<close> eq show ?thesis by simp
        next
          case False
          with bc have "count_calls (is_search c) e1 = 0"
            "count_calls (is_create c) e1 = 0" "count_calls (is_update c) e1 = 0"
            by simp_all
          moreover from False have idx: "index_int (fired(d \<mapsto> 1)) c = index_int fired c"
            by (simp add: index_int_def)
          moreover note Cons.IH [OF l, unfolded idx]
          ultimately show ?thesis unfolding eq by simp
        qed
      qed
    qed
  qed
qed

lemma loop_creates:
  "SubmitAlert_loop config tm st cst list fired alerts s = (r, s', evs) \<Longrightarrow>
     ev \<in> set evs \<Longrightarrow> fst ev = CreateIncidentCall name c st' cst' \<Longrightarrow> st' = st \<and> cst' = cst"
proof (induction alerts arbitrary: fired s r s' evs)
  case Nil
  then show ?case by simp
next
  case (Cons a alerts)
  show ?case
  proof (cases "list (index_str (Labels a) (LabelName config))")
    case None
    with Cons show ?thesis by simp
  next
    case (Some d)
    show ?thesis
    proof (cases "index_int fired d = 0")
      case False
      with Some Cons show ?thesis by simp
    next
      case True
      obtain r1 s1 e1 where b: "SubmitAlert_body config tm st cst a d s = (r1, s1, e1)"
        by (cases "SubmitAlert_body config tm st cst a d s") auto
      show ?thesis
      proof (cases r1)
        case (Some x)
        with b Cons.prems \<open>list _ = Some d\<close> True have "evs = e1" by auto
        with body_creates [OF b] Cons.prems show ?thesis by simp
      next
        case None
        obtain r2 s2 e2 where l: "SubmitAlert_loop config tm st cst list (fired(d \<mapsto> 1)) alerts s1 = (r2, s2, e2)"
          by (cases "SubmitAlert_loop config tm st cst list (fired(d \<mapsto> 1)) alerts s1") auto
        with b None Cons.prems \<open>list _ = Some d\<close> True have eq: "evs = e1 @ e2" by auto
        with Cons.prems have "ev \<in> set e1 \<or> ev \<in> set e2" by auto
        then show ?thesis
        proof
          assume "ev \<in> set e1"
          with body_creates [OF b] Cons.prems show ?thesis by simp
        next
          assume "ev \<in> set e2"
          with Cons.IH [OF l] Cons.prems show ?thesis by simp
        qed
      qed
    qed
  qed
qed

lemma loop_skip_unknown:
  "list (index_str (Labels a) (LabelName config)) = None \<Longrightarrow>
     SubmitAlert_loop config tm st cst list fired (pre @ a # post) s =
     SubmitAlert_loop config tm st cst list fired (pre @ post) s"
  by (induction pre arbitrary: fired s) (auto split: option.splits prod.splits)

lemma loop_skip_fired:
  "list (index_str (Labels b) (LabelName config)) = Some c \<Longrightarrow> index_int fired c \<noteq> 0 \<Longrightarrow>
     SubmitAlert_loop config tm st cst list fired (mid @ b # post) s =
     SubmitAlert_loop config tm st cst list fired (mid @ post) s"
  by (induction mid arbitrary: fired s) (auto split: option.splits prod.splits)

lemma loop_drop_duplicate:
  "list (index_str (Labels a) (LabelName config)) = Some c \<Longrightarrow>
   list (index_str (Labels b) (LabelName config)) = Some c \<Longrightarrow>
     SubmitAlert_loop config tm st cst list fired (pre @ a # mid @ b # post) s =
     SubmitAlert_loop config tm st cst list fired (pre @ a # mid @ post) s"
proof (induction pre arbitrary: fired s)
  case Nil
  then show ?case by (auto simp: loop_skip_fired split: option.splits prod.splits)
next
  case (Cons x pre)
  then show ?case by (auto split: option.splits prod.splits)
qed

lemma body_names:
  "SubmitAlert_body config tm status componentStatus alert componentID s = (r, s', evs) \<Longrightarrow>
     ev \<in> set evs \<Longrightarrow>
     call_name (fst ev) = None \<or>
     call_name (fst ev) = Some (index_str (Labels alert) (LabelName config))"
  by (auto simp: SubmitAlert_body_def Let_def split: prod.splits option.splits if_splits)

lemma body_label_only:
  "index_str (Labels a) (LabelName config) = index_str (Labels b) (LabelName config) \<Longrightarrow>
     SubmitAlert_body config tm status componentStatus a componentID s =
     SubmitAlert_body config tm status componentStatus b componentID s"
  unfolding SubmitAlert_body_def by (simp only:)

lemma squash_firing_create_condition:
  assumes "SquashIncident config"
    and "status \<noteq> 1"
    and "SearchIncidents (Cachet config) componentID s = ((incidents, None), s1)"
  shows "count_calls (is_create componentID)
           (snd (snd (SubmitAlert_body config tm status componentStatus alert componentID s))) =
         (if incidents = [] \<or> Status_i (incidents ! 0) = 4 then 1 else 0)"
  using assms
  by (simp add: SubmitAlert_body_def count_calls_def split: prod.splits option.splits)

section \<open>The status code of a group\<close>

text \<open>
  C3, as the code has it. The code starts from 1 and moves to 4 only when the status field
  is the string \<open>firing\<close>: 4 for \<open>firing\<close>, 1 for every other value (not 1 for \<open>resolved\<close> and
  4 for the rest). Every create-incident call of an invocation carries that code, as the
  incident status and as the component status.
\<close>

theorem status_code_firing_else_resolved:
  "\<forall>ev \<in> set (snd (snd (SubmitAlert config tm bearer (alerts, err) s))).
     \<forall>name c st cst. fst ev = CreateIncidentCall name c st cst \<longrightarrow>
       st = (if Status alerts = ''firing'' then 4 else 1) \<and> cst = st"
proof (intro ballI allI impI)
  fix ev name c st cst
  assume ev: "ev \<in> set (snd (snd (SubmitAlert config tm bearer (alerts, err) s)))"
    and cr: "fst ev = CreateIncidentCall name c st cst"
  let ?code = "if Status alerts = ''firing'' then 4 else 1 :: int"
  obtain list lerr s1 where lc: "ListComponents (Cachet config) s = ((list, lerr), s1)"
    by (cases "ListComponents (Cachet config) s") auto
  obtain r s2 evs where lp:
    "SubmitAlert_loop config tm ?code ?code list Map.empty (Alerts alerts) s1 = (r, s2, evs)"
    by (cases "SubmitAlert_loop config tm ?code ?code list Map.empty (Alerts alerts) s1") auto
  from ev cr lc lp have "ev \<in> set evs"
    by (auto simp: SubmitAlert_def derive_status_def split: if_splits option.splits)
  from loop_creates [OF lp this cr] show "st = ?code \<and> cst = st" by simp
qed

text \<open>A firing group with one alert for a known component, squash mode off: the create
  call is in the calls of the invocation, with 4 and 4.\<close>

theorem status_code_firing_else_resolved_witness:
  "(CreateIncidentCall ''api'' 42 4 4, None) \<in> set (snd (snd
      (SubmitAlert (stubConfig False (stubCachet [''api'' \<mapsto> 42] (\<lambda>_. []) (\<lambda>_. openIncident)))
         stubTime [] (alertGroup ''firing'' [apiAlert], None) 0)))
   \<and> (4::int) = (if Status (alertGroup ''firing'' [apiAlert]) = ''firing'' then 4 else 1)"
  using status_code_firing_else_resolved
    [of "stubConfig False (stubCachet [''api'' \<mapsto> 42] (\<lambda>_. []) (\<lambda>_. openIncident))"
      stubTime "[]" "alertGroup ''firing'' [apiAlert]" None 0]
  by (simp add: stub_defs run_defs)

text \<open>A group whose status is neither \<open>resolved\<close> nor \<open>firing\<close> gets the code 1, not 4.\<close>

theorem status_code_other_value_counterexample:
  "Status (alertGroup ''pending'' [apiAlert]) \<noteq> ''resolved''
   \<and> SubmitAlert (stubConfig False (stubCachet [''api'' \<mapsto> 42] (\<lambda>_. []) (\<lambda>_. openIncident)))
         stubTime [] (alertGroup ''pending'' [apiAlert], None) 0 =
       (JSON 200 ''status'' ''OK'', 2,
        [(ListComponentsCall, None), (CreateIncidentCall ''api'' 42 1 1, None)])"
  by (simp add: stub_defs run_defs)

section \<open>Squash mode, firing\<close>

text \<open>
  C1, evaluated. Squash mode on, a firing group, one alert for component 42. When the most
  recent incident of the component has status 4, the status this function gives the
  incidents it creates for a firing group, a create-incident call is made; when it has
  status 1, none is made. The condition of line 104 tests \<^verbatim>\<open>incidents[0].Status == 4\<close>
  under the comment "if no open incident currently, let's create a new one".
\<close>

theorem squash_firing_creates_when_latest_is_firing:
  "SubmitAlert (stubConfig True (stubCachet [''api'' \<mapsto> 42] (\<lambda>_. [openIncident]) (\<lambda>_. openIncident)))
      stubTime [] (alertGroup ''firing'' [apiAlert], None) 0 =
     (JSON 200 ''status'' ''OK'', 3,
      [(ListComponentsCall, None), (SearchIncidentsCall 42, None),
       (CreateIncidentCall ''api'' 42 4 4, None)])
   \<and> SubmitAlert (stubConfig True (stubCachet [''api'' \<mapsto> 42] (\<lambda>_. [closedIncident]) (\<lambda>_. closedIncident)))
      stubTime [] (alertGroup ''firing'' [apiAlert], None) 0 =
     (JSON 200 ''status'' ''OK'', 2,
      [(ListComponentsCall, None), (SearchIncidentsCall 42, None)])"
  by (simp add: stub_defs run_defs)

section \<open>Squash mode, resolved\<close>

text \<open>
  C4. Squash mode on, a resolved group, and the loop at an alert whose component is seen
  for the first time in this invocation. When the search for the incidents of the
  component succeeds with an empty list, the invocation ends there: the response is a 400
  whose message is "No incident found for component ", the identifier in decimal and a
  newline; the search is the only call made, so nothing is created or updated, and the
  alerts after this one are not looked at.
\<close>

theorem resolved_without_incident_is_error:
  assumes "SquashIncident config"
    and "Status alerts = ''resolved''"
    and "list (index_str (Labels alert) (LabelName config)) = Some componentID"
    and "index_int alreadyFired componentID = 0"
    and "SearchIncidents (Cachet config) componentID s = (([], None), s1)"
  shows "SubmitAlert_loop config tm (fst (derive_status alerts)) (snd (derive_status alerts)) list
           alreadyFired (alert # rest) s =
         (Some (JSON StatusBadRequest ''error''
                  (''No incident found for component '' @ fmt_d componentID @ [CHR 0x0A])),
          s1, [(SearchIncidentsCall componentID, None)])"
  using assms by (simp add: derive_status_def SubmitAlert_body_def)

theorem resolved_without_incident_is_error_witness:
  "SquashIncident (stubConfig True (stubCachet [''api'' \<mapsto> 42] (\<lambda>_. []) (\<lambda>_. openIncident)))
   \<and> Status (alertGroup ''resolved'' [apiAlert, apiAlert]) = ''resolved''
   \<and> [''api'' \<mapsto> 42] (index_str (Labels apiAlert)
        (LabelName (stubConfig True (stubCachet [''api'' \<mapsto> 42] (\<lambda>_. []) (\<lambda>_. openIncident)))))
        = Some 42
   \<and> index_int Map.empty 42 = 0
   \<and> SearchIncidents (Cachet (stubConfig True
         (stubCachet [''api'' \<mapsto> 42] (\<lambda>_. []) (\<lambda>_. openIncident)))) 42 (1::nat)
        = (([], None), 2)
   \<and> SubmitAlert_loop (stubConfig True (stubCachet [''api'' \<mapsto> 42] (\<lambda>_. []) (\<lambda>_. openIncident)))
        stubTime
        (fst (derive_status (alertGroup ''resolved'' [apiAlert, apiAlert])))
        (snd (derive_status (alertGroup ''resolved'' [apiAlert, apiAlert])))
        [''api'' \<mapsto> 42] Map.empty (apiAlert # [apiAlert]) 1 =
      (Some (JSON 400 ''error'' (''No incident found for component 42'' @ [CHR 0x0A])), 2,
       [(SearchIncidentsCall 42, None)])"
  using resolved_without_incident_is_error
    [of "stubConfig True (stubCachet [''api'' \<mapsto> 42] (\<lambda>_. []) (\<lambda>_. openIncident))"
      "alertGroup ''resolved'' [apiAlert, apiAlert]" "[''api'' \<mapsto> 42]" apiAlert 42 Map.empty 1 2
      stubTime "[apiAlert]"]
  by (simp add: stub_defs run_defs)

text \<open>
  C9. Squash mode on, a resolved group, and a search that succeeds with at least one
  incident: the body makes no early return, so the error response inside that branch
  (line 133, under a second test of the search error, which is nil there) is never
  written, and the call after the search is the update of the first incident of the
  search result to status 1.
\<close>

theorem resolved_first_update_always_issued:
  assumes "SquashIncident config"
    and "Status alerts = ''resolved''"
    and "SearchIncidents (Cachet config) componentID s = ((incidents, None), s1)"
    and "incidents \<noteq> []"
  shows "fst (SubmitAlert_body config tm (fst (derive_status alerts)) (snd (derive_status alerts))
                alert componentID s) = None
       \<and> take 2 (snd (snd (SubmitAlert_body config tm (fst (derive_status alerts))
                              (snd (derive_status alerts)) alert componentID s))) =
           [(SearchIncidentsCall componentID, None),
            (UpdateIncidentCall (index_str (Labels alert) (LabelName config)) componentID
               (Id_i (incidents ! 0)) 1
               (''Prometheus flagged service '' @ index_str (Labels alert) (LabelName config)
                 @ '' as up''),
             fst (UpdateIncident (Cachet config) (index_str (Labels alert) (LabelName config))
                    componentID (Id_i (incidents ! 0)) 1
                    (''Prometheus flagged service '' @ index_str (Labels alert) (LabelName config)
                      @ '' as up'') s1))]"
  using assms
  by (simp add: derive_status_def SubmitAlert_body_def Let_def split: prod.splits option.splits)

theorem resolved_first_update_always_issued_witness:
  "SquashIncident (stubConfig True
       (stubCachet [''api'' \<mapsto> 42] (\<lambda>_. [openIncident]) (\<lambda>_. openIncident)))
   \<and> Status (alertGroup ''resolved'' [apiAlert]) = ''resolved''
   \<and> SearchIncidents (Cachet (stubConfig True
         (stubCachet [''api'' \<mapsto> 42] (\<lambda>_. [openIncident]) (\<lambda>_. openIncident)))) 42 (1::nat)
        = (([openIncident], None), 2)
   \<and> [openIncident] \<noteq> []
   \<and> fst (SubmitAlert_body
         (stubConfig True (stubCachet [''api'' \<mapsto> 42] (\<lambda>_. [openIncident]) (\<lambda>_. openIncident)))
         stubTime (fst (derive_status (alertGroup ''resolved'' [apiAlert])))
         (snd (derive_status (alertGroup ''resolved'' [apiAlert]))) apiAlert 42 1) = None
   \<and> take 2 (snd (snd (SubmitAlert_body
         (stubConfig True (stubCachet [''api'' \<mapsto> 42] (\<lambda>_. [openIncident]) (\<lambda>_. openIncident)))
         stubTime (fst (derive_status (alertGroup ''resolved'' [apiAlert])))
         (snd (derive_status (alertGroup ''resolved'' [apiAlert]))) apiAlert 42 1))) =
       [(SearchIncidentsCall 42, None),
        (UpdateIncidentCall ''api'' 42 7 1 ''Prometheus flagged service api as up'', None)]"
  using resolved_first_update_always_issued
    [of "stubConfig True (stubCachet [''api'' \<mapsto> 42] (\<lambda>_. [openIncident]) (\<lambda>_. openIncident))"
      "alertGroup ''resolved'' [apiAlert]" 42 1 "[openIncident]" 2 stubTime apiAlert]
  by (simp add: stub_defs run_defs)

text \<open>
  C5. Squash mode on, a resolved group, a search that succeeds with at least one incident,
  and a read of the first incident that succeeds. The body makes the search, the first
  update and the read; then, exactly when both timestamps of the incident read parse
  under the layout "2006-01-02 15:04:05", one more update whose message carries the
  minutes between the update time and the creation time. In both cases it makes no early
  return: a timestamp that does not parse is not an error.
\<close>

theorem resolved_duration_update:
  assumes "SquashIncident config"
    and "Status alerts = ''resolved''"
    and "SearchIncidents (Cachet config) componentID s = ((incidents, None), s1)"
    and "incidents \<noteq> []"
    and "name = index_str (Labels alert) (LabelName config)"
    and "UpdateIncident (Cachet config) name componentID (Id_i (incidents ! 0)) 1
           (''Prometheus flagged service '' @ name @ '' as up'') s1 = (uerr, s2)"
    and "ReadIncident (Cachet config) (Id_i (incidents ! 0)) s2 = ((inc, None), s3)"
    and "Parse tm ''2006-01-02 15:04:05'' (CreatedAt inc) = (createdAt, err1)"
    and "Parse tm ''2006-01-02 15:04:05'' (UpdatedAt inc) = (updatedAt, err2)"
    and "UpdateIncident (Cachet config) name componentID (Id_i (incidents ! 0)) 1
           (''Prometheus flagged service '' @ name @ '' as up (service was down for ''
             @ fmt_d (SubMinutes tm updatedAt createdAt) @ '' minutes)'') s3 = (uerr', s4)"
  shows "SubmitAlert_body config tm (fst (derive_status alerts)) (snd (derive_status alerts))
           alert componentID s =
         (None, if err1 = None \<and> err2 = None then s4 else s3,
          [(SearchIncidentsCall componentID, None),
           (UpdateIncidentCall name componentID (Id_i (incidents ! 0)) 1
              (''Prometheus flagged service '' @ name @ '' as up''), uerr),
           (ReadIncidentCall (Id_i (incidents ! 0)), None)]
          @ (if err1 = None \<and> err2 = None then
               [(UpdateIncidentCall name componentID (Id_i (incidents ! 0)) 1
                   (''Prometheus flagged service '' @ name @ '' as up (service was down for ''
                     @ fmt_d (SubMinutes tm updatedAt createdAt) @ '' minutes)''), uerr')]
             else []))"
  using assms
  by (simp add: derive_status_def SubmitAlert_body_def Let_def)

theorem resolved_duration_update_witness:
  "SquashIncident (stubConfig True
       (stubCachet [''api'' \<mapsto> 42] (\<lambda>_. [openIncident]) (\<lambda>_. openIncident)))
   \<and> Status (alertGroup ''resolved'' [apiAlert]) = ''resolved''
   \<and> SearchIncidents (Cachet (stubConfig True
         (stubCachet [''api'' \<mapsto> 42] (\<lambda>_. [openIncident]) (\<lambda>_. openIncident)))) 42 (1::nat)
        = (([openIncident], None), 2)
   \<and> [openIncident] \<noteq> []
   \<and> ReadIncident (Cachet (stubConfig True
         (stubCachet [''api'' \<mapsto> 42] (\<lambda>_. [openIncident]) (\<lambda>_. openIncident)))) 7 (3::nat)
        = ((openIncident, None), 4)
   \<and> Parse stubTime ''2006-01-02 15:04:05'' (CreatedAt openIncident) = (36000, None)
   \<and> Parse stubTime ''2006-01-02 15:04:05'' (UpdatedAt openIncident) = (38550, None)
   \<and> SubmitAlert_body
         (stubConfig True (stubCachet [''api'' \<mapsto> 42] (\<lambda>_. [openIncident]) (\<lambda>_. openIncident)))
         stubTime (fst (derive_status (alertGroup ''resolved'' [apiAlert])))
         (snd (derive_status (alertGroup ''resolved'' [apiAlert]))) apiAlert 42 1 =
       (None, 5,
        [(SearchIncidentsCall 42, None),
         (UpdateIncidentCall ''api'' 42 7 1 ''Prometheus flagged service api as up'', None),
         (ReadIncidentCall 7, None),
         (UpdateIncidentCall ''api'' 42 7 1
            ''Prometheus flagged service api as up (service was down for 42 minutes)'', None)])"
  using resolved_duration_update
    [of "stubConfig True (stubCachet [''api'' \<mapsto> 42] (\<lambda>_. [openIncident]) (\<lambda>_. openIncident))"
      "alertGroup ''resolved'' [apiAlert]" 42 1 "[openIncident]" 2 "''api''" apiAlert None 3
      openIncident 4 stubTime 36000 None 38550 None None 5]
  by (simp add: stub_defs run_defs)

section \<open>Alerts the loop skips\<close>

text \<open>
  C7. An alert whose label value is not a key of the component directory changes nothing:
  the invocation gives the same response, leaves the backend in the same state and makes
  the same calls as the invocation on the batch without that alert. So no call is made
  for it, no error comes from it, and the alerts after it are processed as if it were not
  there.
\<close>

theorem unknown_label_is_skipped:
  assumes "ListComponents (Cachet config) s = ((list, lerr), s1)"
    and "list (index_str (Labels a) (LabelName config)) = None"
  shows "SubmitAlert config tm bearer (alerts\<lparr>Alerts := pre @ a # post\<rparr>, err) s =
         SubmitAlert config tm bearer (alerts\<lparr>Alerts := pre @ post\<rparr>, err) s"
  using assms
  by (simp add: SubmitAlert_def derive_status_def loop_skip_unknown split: option.splits)

theorem unknown_label_is_skipped_witness:
  "ListComponents (Cachet (stubConfig False
       (stubCachet twoComponents (\<lambda>_. []) (\<lambda>_. openIncident)))) (0::nat) =
     ((twoComponents, None), 1)
   \<and> twoComponents (index_str (Labels cacheAlert) (LabelName (stubConfig False
       (stubCachet twoComponents (\<lambda>_. []) (\<lambda>_. openIncident))))) = None
   \<and> SubmitAlert (stubConfig False (stubCachet twoComponents (\<lambda>_. []) (\<lambda>_. openIncident)))
        stubTime [] ((alertGroup ''firing'' [])\<lparr>Alerts := [apiAlert] @ cacheAlert # [dbAlert]\<rparr>, None) 0 =
      SubmitAlert (stubConfig False (stubCachet twoComponents (\<lambda>_. []) (\<lambda>_. openIncident)))
        stubTime [] ((alertGroup ''firing'' [])\<lparr>Alerts := [apiAlert] @ [dbAlert]\<rparr>, None) 0
   \<and> SubmitAlert (stubConfig False (stubCachet twoComponents (\<lambda>_. []) (\<lambda>_. openIncident)))
        stubTime [] ((alertGroup ''firing'' [])\<lparr>Alerts := [apiAlert] @ cacheAlert # [dbAlert]\<rparr>, None) 0 =
      (JSON 200 ''status'' ''OK'', 3,
       [(ListComponentsCall, None), (CreateIncidentCall ''api'' 42 4 4, None),
        (CreateIncidentCall ''db'' 43 4 4, None)])"
  using unknown_label_is_skipped [where config = "stubConfig False (stubCachet twoComponents (\<lambda>_. []) (\<lambda>_. openIncident))"
      and s = 0 and list = twoComponents and lerr = None and ?s1.0 = 1 and a = cacheAlert
      and tm = stubTime and bearer = "[]" and alerts = "alertGroup ''firing'' []"
      and pre = "[apiAlert]" and post = "[dbAlert]" and err = None]
  by (simp add: stub_defs run_defs)

text \<open>
  C6. In the calls of an invocation, every component identifier has at most one search, at
  most one create and at most two updates (the two updates of one resolution). And a later
  alert of the batch that resolves to the component of an earlier alert is skipped: the
  invocation is the same as on the batch without the later alert.
\<close>

theorem component_processed_at_most_once:
  "count_calls (is_search c) (snd (snd (SubmitAlert config tm bearer payload s))) \<le> 1
   \<and> count_calls (is_create c) (snd (snd (SubmitAlert config tm bearer payload s))) \<le> 1
   \<and> count_calls (is_update c) (snd (snd (SubmitAlert config tm bearer payload s))) \<le> 2
   \<and> (payload = (alerts\<lparr>Alerts := pre @ a # mid @ b # post\<rparr>, err) \<and>
        ListComponents (Cachet config) s = ((list, lerr), s1) \<and>
        list (index_str (Labels a) (LabelName config)) = Some c \<and>
        list (index_str (Labels b) (LabelName config)) = Some c \<longrightarrow>
        SubmitAlert config tm bearer payload s =
        SubmitAlert config tm bearer (alerts\<lparr>Alerts := pre @ a # mid @ post\<rparr>, err) s)"
proof -
  obtain g e where p: "payload = (g, e)" by (cases payload) auto
  obtain dir derr t where lc: "ListComponents (Cachet config) s = ((dir, derr), t)"
    by (cases "ListComponents (Cachet config) s") auto
  obtain r t' evs where lp:
    "SubmitAlert_loop config tm (fst (derive_status g)) (snd (derive_status g)) dir
       Map.empty (Alerts g) t = (r, t', evs)"
    by (cases "SubmitAlert_loop config tm (fst (derive_status g))
                 (snd (derive_status g)) dir Map.empty (Alerts g) t") auto
  have cnt: "count_calls (is_search c) evs \<le> 1 \<and> count_calls (is_create c) evs \<le> 1 \<and>
        count_calls (is_update c) evs \<le> 2"
    using loop_counts [OF lp, of c] by (simp add: index_int_def)
  have evs: "snd (snd (SubmitAlert config tm bearer payload s)) = [] \<or>
        snd (snd (SubmitAlert config tm bearer payload s)) = [(ListComponentsCall, derr)] \<or>
        snd (snd (SubmitAlert config tm bearer payload s)) = (ListComponentsCall, None) # evs"
    using p lc lp
    by (cases "derive_status g")
      (auto simp: SubmitAlert_def split: option.splits)
  have counts: "count_calls (is_search c) (snd (snd (SubmitAlert config tm bearer payload s))) \<le> 1
   \<and> count_calls (is_create c) (snd (snd (SubmitAlert config tm bearer payload s))) \<le> 1
   \<and> count_calls (is_update c) (snd (snd (SubmitAlert config tm bearer payload s))) \<le> 2"
    using evs cnt by (auto simp: count_calls_def)
  have dup: "payload = (alerts\<lparr>Alerts := pre @ a # mid @ b # post\<rparr>, err) \<and>
        ListComponents (Cachet config) s = ((list, lerr), s1) \<and>
        list (index_str (Labels a) (LabelName config)) = Some c \<and>
        list (index_str (Labels b) (LabelName config)) = Some c \<longrightarrow>
        SubmitAlert config tm bearer payload s =
        SubmitAlert config tm bearer (alerts\<lparr>Alerts := pre @ a # mid @ post\<rparr>, err) s"
    by (auto simp: SubmitAlert_def derive_status_def loop_drop_duplicate split: option.splits)
  from counts dup show ?thesis by blast
qed

theorem component_processed_at_most_once_witness:
  "(alertGroup ''resolved'' [apiAlert, dbAlert, apiAlert], None) =
     ((alertGroup ''resolved'' [])\<lparr>Alerts := [] @ apiAlert # [dbAlert] @ apiAlert # []\<rparr>, None)
   \<and> ListComponents (Cachet (stubConfig True
       (stubCachet twoComponents (\<lambda>_. [openIncident]) (\<lambda>_. openIncident)))) (0::nat) =
     ((twoComponents, None), 1)
   \<and> twoComponents (index_str (Labels apiAlert) (LabelName (stubConfig True
       (stubCachet twoComponents (\<lambda>_. [openIncident]) (\<lambda>_. openIncident))))) = Some 42
   \<and> count_calls (is_search 42) (snd (snd (SubmitAlert
        (stubConfig True (stubCachet twoComponents (\<lambda>_. [openIncident]) (\<lambda>_. openIncident)))
        stubTime [] (alertGroup ''resolved'' [apiAlert, dbAlert, apiAlert], None) 0))) = 1
   \<and> count_calls (is_create 42) (snd (snd (SubmitAlert
        (stubConfig True (stubCachet twoComponents (\<lambda>_. [openIncident]) (\<lambda>_. openIncident)))
        stubTime [] (alertGroup ''resolved'' [apiAlert, dbAlert, apiAlert], None) 0))) = 0
   \<and> count_calls (is_update 42) (snd (snd (SubmitAlert
        (stubConfig True (stubCachet twoComponents (\<lambda>_. [openIncident]) (\<lambda>_. openIncident)))
        stubTime [] (alertGroup ''resolved'' [apiAlert, dbAlert, apiAlert], None) 0))) = 2
   \<and> SubmitAlert
        (stubConfig True (stubCachet twoComponents (\<lambda>_. [openIncident]) (\<lambda>_. openIncident)))
        stubTime [] (alertGroup ''resolved'' [apiAlert, dbAlert, apiAlert], None) 0 =
      SubmitAlert
        (stubConfig True (stubCachet twoComponents (\<lambda>_. [openIncident]) (\<lambda>_. openIncident)))
        stubTime [] ((alertGroup ''resolved'' [])\<lparr>Alerts := [] @ apiAlert # [dbAlert] @ []\<rparr>, None) 0"
  using component_processed_at_most_once [where c = 42
      and config = "stubConfig True (stubCachet twoComponents (\<lambda>_. [openIncident]) (\<lambda>_. openIncident))"
      and tm = stubTime and bearer = "[]"
      and payload = "(alertGroup ''resolved'' [apiAlert, dbAlert, apiAlert], None)"
      and s = 0 and alerts = "alertGroup ''resolved'' []" and pre = "[]" and a = apiAlert
      and mid = "[dbAlert]" and b = apiAlert and post = "[]" and err = None
      and list = twoComponents and lerr = None and ?s1.0 = 1]
  by (simp add: stub_defs run_defs count_calls_def)

text \<open>
  C10, as the code has it. An alert whose labels have no entry for the configured label
  key is resolved with the empty string: the loop treats it as the same alert carrying
  the empty string under that key. It is skipped when the directory has no entry for the
  empty string, and also when the directory maps the empty string to a component already
  handled in this invocation. When the directory maps the empty string to a component not
  yet handled in this invocation, the body runs for that component, and every create and
  update call it makes carries the empty string as the name.
\<close>

theorem missing_label_key_resolves_empty_string:
  assumes "Labels alert (LabelName config) = None"
  shows "index_str (Labels alert) (LabelName config) = []
   \<and> SubmitAlert_loop config tm status componentStatus list alreadyFired (alert # rest) s =
     SubmitAlert_loop config tm status componentStatus list alreadyFired
       (alert\<lparr>Labels := (Labels alert)(LabelName config \<mapsto> [])\<rparr> # rest) s
   \<and> (list [] = None \<longrightarrow>
        SubmitAlert_loop config tm status componentStatus list alreadyFired (alert # rest) s =
        SubmitAlert_loop config tm status componentStatus list alreadyFired rest s)
   \<and> (list [] = Some c \<and> index_int alreadyFired c = 0 \<longrightarrow>
        SubmitAlert_loop config tm status componentStatus list alreadyFired (alert # rest) s =
          (case SubmitAlert_body config tm status componentStatus alert c s of
             (Some r, s1, evs) \<Rightarrow> (Some r, s1, evs)
           | (None, s1, evs) \<Rightarrow>
               (case SubmitAlert_loop config tm status componentStatus list
                       (alreadyFired(c \<mapsto> 1)) rest s1 of
                  (r, s2, evs') \<Rightarrow> (r, s2, evs @ evs')))
        \<and> (\<forall>ev \<in> set (snd (snd (SubmitAlert_body config tm status componentStatus alert c s))).
              call_name (fst ev) = None \<or> call_name (fst ev) = Some []))
   \<and> (list [] = Some c \<and> index_int alreadyFired c \<noteq> 0 \<longrightarrow>
        SubmitAlert_loop config tm status componentStatus list alreadyFired (alert # rest) s =
        SubmitAlert_loop config tm status componentStatus list alreadyFired rest s)"
proof -
  from assms have e: "index_str (Labels alert) (LabelName config) = []"
    by (simp add: index_str_def)
  have e': "index_str (Labels (alert\<lparr>Labels := (Labels alert)(LabelName config \<mapsto> [])\<rparr>))
              (LabelName config) = []"
    by (simp add: index_str_def)
  have same: "\<And>c. SubmitAlert_body config tm status componentStatus alert c s =
      SubmitAlert_body config tm status componentStatus
        (alert\<lparr>Labels := (Labels alert)(LabelName config \<mapsto> [])\<rparr>) c s"
    by (rule body_label_only) (simp only: e e')
  have names: "\<And>c ev. ev \<in> set (snd (snd (SubmitAlert_body config tm status componentStatus alert c s)))
      \<Longrightarrow> call_name (fst ev) = None \<or> call_name (fst ev) = Some []"
  proof -
    fix c ev
    assume m: "ev \<in> set (snd (snd (SubmitAlert_body config tm status componentStatus alert c s)))"
    obtain r s1 evs where b: "SubmitAlert_body config tm status componentStatus alert c s = (r, s1, evs)"
      by (cases "SubmitAlert_body config tm status componentStatus alert c s") auto
    with m have "ev \<in> set evs" by simp
    from body_names [OF b this] e show "call_name (fst ev) = None \<or> call_name (fst ev) = Some []"
      by simp
  qed
  have eq: "SubmitAlert_loop config tm status componentStatus list alreadyFired (alert # rest) s =
     SubmitAlert_loop config tm status componentStatus list alreadyFired
       (alert\<lparr>Labels := (Labels alert)(LabelName config \<mapsto> [])\<rparr> # rest) s"
    by (simp only: SubmitAlert_loop.simps e e' same)
  show ?thesis using e eq names by (simp split: option.splits)
qed

theorem missing_label_key_resolves_empty_string_witness:
  "Labels unlabelledAlert (LabelName (stubConfig False
       (stubCachet [[] \<mapsto> 7] (\<lambda>_. []) (\<lambda>_. openIncident)))) = None
   \<and> twoComponents [] = None
   \<and> [[] \<mapsto> (7::int)] [] = Some 7
   \<and> index_int Map.empty 7 = 0
   \<and> index_int [7 \<mapsto> 1] 7 \<noteq> 0
   \<and> SubmitAlert_loop (stubConfig False (stubCachet twoComponents (\<lambda>_. []) (\<lambda>_. openIncident)))
        stubTime 4 4 twoComponents Map.empty (unlabelledAlert # [apiAlert]) 1 =
      SubmitAlert_loop (stubConfig False (stubCachet twoComponents (\<lambda>_. []) (\<lambda>_. openIncident)))
        stubTime 4 4 twoComponents Map.empty [apiAlert] 1
   \<and> SubmitAlert_loop (stubConfig False (stubCachet [[] \<mapsto> 7] (\<lambda>_. []) (\<lambda>_. openIncident)))
        stubTime 4 4 [[] \<mapsto> 7] Map.empty (unlabelledAlert # [apiAlert]) 1 =
      (None, 2, [(CreateIncidentCall [] 7 4 4, None)])
   \<and> SubmitAlert_loop (stubConfig False (stubCachet [[] \<mapsto> 7] (\<lambda>_. []) (\<lambda>_. openIncident)))
        stubTime 4 4 [[] \<mapsto> 7] [7 \<mapsto> 1] (unlabelledAlert # [apiAlert]) 1 =
      SubmitAlert_loop (stubConfig False (stubCachet [[] \<mapsto> 7] (\<lambda>_. []) (\<lambda>_. openIncident)))
        stubTime 4 4 [[] \<mapsto> 7] [7 \<mapsto> 1] [apiAlert] 1
   \<and> SubmitAlert_loop (stubConfig False (stubCachet [[] \<mapsto> 7] (\<lambda>_. []) (\<lambda>_. openIncident)))
        stubTime 4 4 [[] \<mapsto> 7] [7 \<mapsto> 1] (unlabelledAlert # [apiAlert]) 1 = (None, 1, [])"
  using missing_label_key_resolves_empty_string [where alert = unlabelledAlert
      and config = "stubConfig False (stubCachet twoComponents (\<lambda>_. []) (\<lambda>_. openIncident))"
      and list = twoComponents and tm = stubTime and status = 4 and componentStatus = 4
      and alreadyFired = Map.empty and rest = "[apiAlert]" and s = 1 and c = 7]
    missing_label_key_resolves_empty_string [where alert = unlabelledAlert
      and config = "stubConfig False (stubCachet [[] \<mapsto> 7] (\<lambda>_. []) (\<lambda>_. openIncident))"
      and list = "[[] \<mapsto> 7]" and tm = stubTime and status = 4 and componentStatus = 4
      and alreadyFired = Map.empty and rest = "[apiAlert]" and s = 1 and c = 7]
    missing_label_key_resolves_empty_string [where alert = unlabelledAlert
      and config = "stubConfig False (stubCachet [[] \<mapsto> 7] (\<lambda>_. []) (\<lambda>_. openIncident))"
      and list = "[[] \<mapsto> 7]" and tm = stubTime and status = 4 and componentStatus = 4
      and alreadyFired = "[7 \<mapsto> 1]" and rest = "[apiAlert]" and s = 1 and c = 7]
  by (simp add: stub_defs run_defs)

text \<open>
  Two alerts without the label key in one firing group, a directory that maps the empty
  string to component 7, squash mode off: the first alert is processed, the second is
  not, although the directory maps the empty string to a component. One create call is
  made for the two alerts.
\<close>

theorem missing_label_key_second_alert_counterexample:
  "Labels unlabelledAlert (LabelName (stubConfig False
       (stubCachet [[] \<mapsto> 7] (\<lambda>_. []) (\<lambda>_. openIncident)))) = None
   \<and> [[] \<mapsto> (7::int)] [] = Some 7
   \<and> SubmitAlert (stubConfig False (stubCachet [[] \<mapsto> 7] (\<lambda>_. []) (\<lambda>_. openIncident)))
        stubTime [] (alertGroup ''firing'' [unlabelledAlert, unlabelledAlert], None) 0 =
      (JSON 200 ''status'' ''OK'', 2,
       [(ListComponentsCall, None), (CreateIncidentCall [] 7 4 4, None)])
   \<and> SubmitAlert_loop (stubConfig False (stubCachet [[] \<mapsto> 7] (\<lambda>_. []) (\<lambda>_. openIncident)))
        stubTime 4 4 [[] \<mapsto> 7] [7 \<mapsto> 1] [unlabelledAlert] 2 = (None, 2, [])"
  by (simp add: stub_defs run_defs)

section \<open>Squash mode off\<close>







section \<open>Failures of the backend\<close>

text \<open>
  C2, as the code has it. When a call that lists the components, searches the incidents
  of a component or creates an incident fails, it is the last call of the invocation and
  the response is a 400 carrying its error. A failed read of the incident is not
  reported: the body makes no further update and falls through to the next alert, with no
  early return. (The theorem says nothing on a failed update.)
\<close>

theorem checked_failures_abort:
  "(SubmitAlert config tm bearer payload s = (r, s', pre @ ev # post) \<and> checked_failure ev \<longrightarrow>
      post = [] \<and> r = JSON StatusBadRequest ''error'' (the (snd ev)))
   \<and> (SquashIncident config \<and> Status alerts = ''resolved'' \<and>
       SearchIncidents (Cachet config) componentID s0 = ((incidents, None), s1) \<and>
       incidents \<noteq> [] \<and>
       UpdateIncident (Cachet config) (index_str (Labels alert) (LabelName config)) componentID
         (Id_i (incidents ! 0)) 1
         (''Prometheus flagged service '' @ index_str (Labels alert) (LabelName config)
            @ '' as up'') s1 = (uerr, s2) \<and>
       ReadIncident (Cachet config) (Id_i (incidents ! 0)) s2 = ((inc, Some m), s3) \<longrightarrow>
       SubmitAlert_body config tm (fst (derive_status alerts)) (snd (derive_status alerts))
         alert componentID s0 =
       (None, s3,
        [(SearchIncidentsCall componentID, None),
         (UpdateIncidentCall (index_str (Labels alert) (LabelName config)) componentID
            (Id_i (incidents ! 0)) 1
            (''Prometheus flagged service '' @ index_str (Labels alert) (LabelName config)
               @ '' as up''), uerr),
         (ReadIncidentCall (Id_i (incidents ! 0)), Some m)]))"
proof -
  have ff: "post = [] \<and> r = JSON StatusBadRequest ''error'' (the (snd ev))"
    if run: "SubmitAlert config tm bearer payload s = (r, s', pre @ ev # post)"
      and bad: "checked_failure ev"
  proof -
    obtain g e where p: "payload = (g, e)" by (cases payload) auto
    obtain dir derr t where lc: "ListComponents (Cachet config) s = ((dir, derr), t)"
      by (cases "ListComponents (Cachet config) s") auto
    obtain ro t' evs where lp:
      "SubmitAlert_loop config tm (fst (derive_status g)) (snd (derive_status g)) dir
         Map.empty (Alerts g) t = (ro, t', evs)"
      by (cases "SubmitAlert_loop config tm (fst (derive_status g))
                   (snd (derive_status g)) dir Map.empty (Alerts g) t") auto
    note lff = loop_fail_fast [OF lp]
    consider (none) "pre @ ev # post = []"
      | (listed) x where "derr = Some x" "pre @ ev # post = [(ListComponentsCall, Some x)]"
          "r = JSON StatusBadRequest ''error'' x"
      | (looped) "pre @ ev # post = (ListComponentsCall, None) # evs"
          "r = (case ro of Some r' \<Rightarrow> r' | None \<Rightarrow> JSON StatusOK ''status'' ''OK'')"
      using run p lc lp
      by (cases "derive_status g") (auto simp: SubmitAlert_def split: option.splits if_splits)
    then show ?thesis
    proof cases
      case none
      then show ?thesis by simp
    next
      case listed
      then show ?thesis by (cases pre) auto
    next
      case looped
      with bad obtain pre' where "pre = (ListComponentsCall, None) # pre'"
        by (cases pre) auto
      with looped have "evs = pre' @ ev # post" by simp
      with lff have "fail_fast ro (pre' @ ev # post)" by simp
      from fail_fast_split [OF this bad] looped show ?thesis by simp
    qed
  qed
  have rd: "SubmitAlert_body config tm (fst (derive_status alerts)) (snd (derive_status alerts))
         alert componentID s0 =
       (None, s3,
        [(SearchIncidentsCall componentID, None),
         (UpdateIncidentCall (index_str (Labels alert) (LabelName config)) componentID
            (Id_i (incidents ! 0)) 1
            (''Prometheus flagged service '' @ index_str (Labels alert) (LabelName config)
               @ '' as up''), uerr),
         (ReadIncidentCall (Id_i (incidents ! 0)), Some m)])"
    if "SquashIncident config" "Status alerts = ''resolved''"
      "SearchIncidents (Cachet config) componentID s0 = ((incidents, None), s1)"
      "incidents \<noteq> []"
      "UpdateIncident (Cachet config) (index_str (Labels alert) (LabelName config)) componentID
         (Id_i (incidents ! 0)) 1
         (''Prometheus flagged service '' @ index_str (Labels alert) (LabelName config)
            @ '' as up'') s1 = (uerr, s2)"
      "ReadIncident (Cachet config) (Id_i (incidents ! 0)) s2 = ((inc, Some m), s3)"
    using that by (simp add: derive_status_def SubmitAlert_body_def Let_def)
  from ff rd show ?thesis by blast
qed

theorem checked_failures_abort_witness:
  "SubmitAlert (stubConfig True (failingRead (failingCreate
        (stubCachet twoComponents (\<lambda>c. if c = 42 then [] else [openIncident]) (\<lambda>_. openIncident)))))
      stubTime [] (alertGroup ''firing'' [apiAlert, dbAlert], None) 0 =
     (JSON 400 ''error'' ''create failed'', 3,
      [(ListComponentsCall, None), (SearchIncidentsCall 42, None)]
       @ (CreateIncidentCall ''api'' 42 4 4, Some ''create failed'') # [])
   \<and> checked_failure (CreateIncidentCall ''api'' 42 4 4, Some ''create failed'')
   \<and> SquashIncident (stubConfig True (failingRead (failingCreate
        (stubCachet twoComponents (\<lambda>c. if c = 42 then [] else [openIncident]) (\<lambda>_. openIncident)))))
   \<and> Status (alertGroup ''resolved'' [dbAlert]) = ''resolved''
   \<and> SearchIncidents (Cachet (stubConfig True (failingRead (failingCreate
        (stubCachet twoComponents (\<lambda>c. if c = 42 then [] else [openIncident]) (\<lambda>_. openIncident))))))
        43 (1::nat) = (([openIncident], None), 2)
   \<and> ReadIncident (Cachet (stubConfig True (failingRead (failingCreate
        (stubCachet twoComponents (\<lambda>c. if c = 42 then [] else [openIncident]) (\<lambda>_. openIncident))))))
        7 (3::nat) = ((stubIncident 0 0 [] [], Some ''read failed''), 4)
   \<and> SubmitAlert_body (stubConfig True (failingRead (failingCreate
        (stubCachet twoComponents (\<lambda>c. if c = 42 then [] else [openIncident]) (\<lambda>_. openIncident)))))
        stubTime (fst (derive_status (alertGroup ''resolved'' [dbAlert])))
        (snd (derive_status (alertGroup ''resolved'' [dbAlert]))) dbAlert 43 1 =
      (None, 4,
       [(SearchIncidentsCall 43, None),
        (UpdateIncidentCall ''db'' 43 7 1 ''Prometheus flagged service db as up'', None),
        (ReadIncidentCall 7, Some ''read failed'')])"
  using checked_failures_abort [where config = "stubConfig True (failingRead (failingCreate
        (stubCachet twoComponents (\<lambda>c. if c = 42 then [] else [openIncident]) (\<lambda>_. openIncident))))"
      and tm = stubTime and bearer = "[]"
      and payload = "(alertGroup ''firing'' [apiAlert, dbAlert], None)" and s = 0
      and r = "JSON 400 ''error'' ''create failed''" and s' = 3
      and pre = "[(ListComponentsCall, None), (SearchIncidentsCall 42, None)]"
      and ev = "(CreateIncidentCall ''api'' 42 4 4, Some ''create failed'')" and post = "[]"
      and alerts = "alertGroup ''resolved'' [dbAlert]" and componentID = 43 and ?s0.0 = 1
      and incidents = "[openIncident]" and ?s1.0 = 2 and alert = dbAlert and uerr = None
      and ?s2.0 = 3 and inc = "stubIncident 0 0 [] []" and m = "''read failed''" and ?s3.0 = 4]
  by (simp add: stub_defs run_defs)

text \<open>
  Two runs of a resolved group for two components, squash mode on. In the first every read
  of an incident fails, in the second every update fails; both times the response is
  200 and the second component is processed after the failure on the first.
\<close>

theorem unchecked_failures_counterexample:
  "SubmitAlert (stubConfig True
       (failingRead (stubCachet twoComponents (\<lambda>_. [openIncident]) (\<lambda>_. openIncident))))
      stubTime [] (alertGroup ''resolved'' [apiAlert, dbAlert], None) 0 =
     (JSON 200 ''status'' ''OK'', 7,
      [(ListComponentsCall, None),
       (SearchIncidentsCall 42, None),
       (UpdateIncidentCall ''api'' 42 7 1 ''Prometheus flagged service api as up'', None),
       (ReadIncidentCall 7, Some ''read failed''),
       (SearchIncidentsCall 43, None),
       (UpdateIncidentCall ''db'' 43 7 1 ''Prometheus flagged service db as up'', None),
       (ReadIncidentCall 7, Some ''read failed'')])
   \<and> SubmitAlert (stubConfig True
       (failingUpdate (stubCachet twoComponents (\<lambda>_. [openIncident]) (\<lambda>_. openIncident))))
      stubTime [] (alertGroup ''resolved'' [apiAlert, dbAlert], None) 0 =
     (JSON 200 ''status'' ''OK'', 9,
      [(ListComponentsCall, None),
       (SearchIncidentsCall 42, None),
       (UpdateIncidentCall ''api'' 42 7 1 ''Prometheus flagged service api as up'',
          Some ''update failed''),
       (ReadIncidentCall 7, None),
       (UpdateIncidentCall ''api'' 42 7 1
          ''Prometheus flagged service api as up (service was down for 42 minutes)'',
          Some ''update failed''),
       (SearchIncidentsCall 43, None),
       (UpdateIncidentCall ''db'' 43 7 1 ''Prometheus flagged service db as up'',
          Some ''update failed''),
       (ReadIncidentCall 7, None),
       (UpdateIncidentCall ''db'' 43 7 1
          ''Prometheus flagged service db as up (service was down for 42 minutes)'',
          Some ''update failed'')])"
  by (simp add: stub_defs run_defs)

end
